theory Spec2Isabelle
  imports Complex_Main
begin

section \<open>JavaScript numbers and the Math functions the screens use\<close>

text \<open>
  The program is TypeScript; its numbers are IEEE doubles. They are idealised here as
  real numbers: rounding, signed zeros, infinities and NaN are not represented. The
  functions below are those of the JavaScript runtime, not of the repository; they are
  written out so that the repository's code can be embedded line by line.
\<close>

definition Math_PI :: real where
  "Math_PI = pi"

definition Math_sin :: "real \<Rightarrow> real" where
  "Math_sin a = sin a"

definition Math_cos :: "real \<Rightarrow> real" where
  "Math_cos a = cos a"

text \<open>
  \<open>Math.atan2(y, x)\<close>: the angle of the point \<open>(x, y)\<close>, in \<open>(-\<pi>, \<pi>]\<close>, with
  \<open>Math.atan2(0, 0) = 0\<close>.
\<close>

definition Math_atan2 :: "real \<Rightarrow> real \<Rightarrow> real" where
  "Math_atan2 y x =
     (if 0 < x then arctan (y / x)
      else if x < 0 then (if 0 \<le> y then arctan (y / x) + pi else arctan (y / x) - pi)
      else if 0 < y then pi / 2
      else if y < 0 then - (pi / 2)
      else 0)"

text \<open>
  The \<open>%\<close> operator: the remainder of the division truncated towards zero, so the result
  has the sign of the dividend. (For a zero divisor JavaScript yields NaN; the program
  only ever divides by the literal 360.)
\<close>

definition js_trunc :: "real \<Rightarrow> int" where
  "js_trunc r = (if 0 \<le> r then \<lfloor>r\<rfloor> else \<lceil>r\<rceil>)"

definition js_rem :: "real \<Rightarrow> real \<Rightarrow> real" where
  "js_rem a b = a - b * of_int (js_trunc (a / b))"


section \<open>The Qibla screen (SolatQibla)\<close>

definition KAABA_LATITUDE :: real where
  "KAABA_LATITUDE = 21.4225"

definition KAABA_LONGITUDE :: real where
  "KAABA_LONGITUDE = 39.8262"

record coords =
  latitude :: real
  longitude :: real

record magnetometer_sample =
  mag_x :: real
  mag_y :: real
  mag_z :: real

text \<open>
  The component's state variables that the computation reads or writes
  (\<open>useState\<close> hooks); \<open>location\<close> holds the coordinates of the location object,
  \<open>None\<close> for \<open>null\<close>.
\<close>

record qibla_state =
  magnetometerData :: magnetometer_sample
  qiblaDirection :: real
  heading :: real
  location :: "coords option"

definition initial_state :: qibla_state where
  "initial_state =
     \<lparr>magnetometerData = \<lparr>mag_x = 0, mag_y = 0, mag_z = 0\<rparr>,
      qiblaDirection = 0, heading = 0, location = None\<rparr>"

text \<open>\<open>calculateQiblaDirection(coords)\<close>; its effect is \<open>setQiblaDirection(qibla)\<close>.\<close>

definition calculateQiblaDirection :: "coords \<Rightarrow> qibla_state \<Rightarrow> qibla_state" where
  "calculateQiblaDirection c s =
     (let lat1 = latitude c * (Math_PI / 180);
          lon1 = longitude c * (Math_PI / 180);
          lat2 = KAABA_LATITUDE * (Math_PI / 180);
          lon2 = KAABA_LONGITUDE * (Math_PI / 180);
          y = Math_sin (lon2 - lon1) * Math_cos lat2;
          x = Math_cos lat1 * Math_sin lat2
                - Math_sin lat1 * Math_cos lat2 * Math_cos (lon2 - lon1);
          qibla = Math_atan2 y x * (180 / Math_PI);
          qibla = js_rem (qibla + 360) 360
      in s\<lparr>qiblaDirection := qibla\<rparr>)"

text \<open>
  \<open>calculateHeading()\<close> reads \<open>magnetometerData\<close> from the state and
  \<open>Platform.OS\<close> (a string fixed for the process, here the parameter \<open>os\<close>); its
  effect is \<open>setHeading(heading)\<close>.
\<close>

definition calculateHeading :: "string \<Rightarrow> qibla_state \<Rightarrow> qibla_state" where
  "calculateHeading os s =
     (let x = mag_x (magnetometerData s);
          y = mag_y (magnetometerData s);
          z = mag_z (magnetometerData s);
          heading = (if os = ''ios'' then Math_atan2 y x * (180 / Math_PI)
                     else Math_atan2 x y * (180 / Math_PI));
          heading = js_rem (heading + 360) 360
      in s\<lparr>heading := heading\<rparr>)"

text \<open>The two rotations computed in the component body on every render.\<close>

definition compassRotation :: "qibla_state \<Rightarrow> real" where
  "compassRotation s = - heading s"

definition needleRotation :: "qibla_state \<Rightarrow> real" where
  "needleRotation s = qiblaDirection s - heading s"

text \<open>
  What drives the state: the effect on \<open>[magnetometerData, location]\<close> runs
  \<open>calculateHeading()\<close> when a location is present (the sample object is always
  truthy); the magnetometer listener stores each sample; a loaded or fresh location fix
  is stored and passed to \<open>calculateQiblaDirection\<close>.
\<close>

definition heading_effect :: "string \<Rightarrow> qibla_state \<Rightarrow> qibla_state" where
  "heading_effect os s = (if location s \<noteq> None then calculateHeading os s else s)"

definition on_sample :: "string \<Rightarrow> magnetometer_sample \<Rightarrow> qibla_state \<Rightarrow> qibla_state" where
  "on_sample os d s = heading_effect os (s\<lparr>magnetometerData := d\<rparr>)"

definition on_location :: "string \<Rightarrow> coords \<Rightarrow> qibla_state \<Rightarrow> qibla_state" where
  "on_location os c s = heading_effect os (calculateQiblaDirection c (s\<lparr>location := Some c\<rparr>))"

inductive reachable :: "string \<Rightarrow> qibla_state \<Rightarrow> bool" for os :: string where
  mounted: "reachable os initial_state"
| sampled: "reachable os s \<Longrightarrow> reachable os (on_sample os d s)"
| located: "reachable os s \<Longrightarrow> reachable os (on_location os c s)"


section \<open>The bearing engine as the specification words it\<close>

definition radians :: "real \<Rightarrow> real" where
  "radians d = d * pi / 180"

definition degrees :: "real \<Rightarrow> real" where
  "degrees r = r * 180 / pi"

text \<open>\<open>a mod m\<close> on the reals: the representative of \<open>a\<close> in \<open>[0, m)\<close>.\<close>

definition real_mod :: "real \<Rightarrow> real \<Rightarrow> real" where
  "real_mod a m = a - m * of_int \<lfloor>a / m\<rfloor>"

definition computeBearing :: "coords \<Rightarrow> coords \<Rightarrow> real" where
  "computeBearing observer target =
     (let lat1 = radians (latitude observer);
          lon1 = radians (longitude observer);
          lat2 = radians (latitude target);
          lon2 = radians (longitude target);
          dlon = lon2 - lon1;
          y = sin dlon * cos lat2;
          x = cos lat1 * sin lat2 - sin lat1 * cos lat2 * cos dlon;
          bearing = degrees (Math_atan2 y x)
      in real_mod (bearing + 360) 360)"


section \<open>The Tasbeeh screen: storage with expiry, and the counters\<close>

text \<open>
  AsyncStorage is a store of strings by key, taken here as reliable (its own I/O
  failures are not modelled). What \<open>JSON.parse\<close> returns is a JSON value; a
  JavaScript value is such a value or \<open>undefined\<close>, and \<open>null\<close> is
  \<open>Value JNull\<close>.
\<close>

type_synonym async_storage = "string \<rightharpoonup> string"

datatype json =
    JNull
  | JBool bool
  | JNum real
  | JStr string
  | JArr "json list"
  | JObj "(string \<times> json) list"

datatype jsvalue = Undefined | Value json

datatype js_error = SyntaxError | TypeError

text \<open>
  The parts of the JavaScript runtime the storage functions call, as parameters:
  \<open>JSON.parse\<close> (\<open>None\<close> when it throws a SyntaxError), \<open>JSON.stringify\<close>, and
  the conversion to a number of a string, an array or an object (\<open>Inl\<close> when it
  throws, \<open>Inr None\<close> for NaN).
\<close>

record js_runtime =
  JSON_parse :: "string \<Rightarrow> json option"
  JSON_stringify :: "json \<Rightarrow> string"
  ToNumber_object :: "json \<Rightarrow> js_error + real option"

text \<open>
  Reading a property whose name is on no prototype (as \<open>timestamp\<close> and \<open>value\<close>
  are): a TypeError on \<open>null\<close>, the member of an object, \<open>undefined\<close> on anything
  else.
\<close>

fun get_prop :: "json \<Rightarrow> string \<Rightarrow> js_error + jsvalue" where
  "get_prop JNull k = Inl TypeError"
| "get_prop (JObj kvs) k = Inr (case map_of kvs k of None \<Rightarrow> Undefined | Some v \<Rightarrow> Value v)"
| "get_prop j k = Inr Undefined"

text \<open>The conversion to a number that the \<open>-\<close> operator applies; \<open>None\<close> is NaN.\<close>

fun ToNumber :: "js_runtime \<Rightarrow> jsvalue \<Rightarrow> js_error + real option" where
  "ToNumber rt Undefined = Inr None"
| "ToNumber rt (Value JNull) = Inr (Some 0)"
| "ToNumber rt (Value (JBool b)) = Inr (Some (if b then 1 else 0))"
| "ToNumber rt (Value (JNum n)) = Inr (Some n)"
| "ToNumber rt (Value j) = ToNumber_object rt j"

text \<open>\<open>a - b > c\<close> on numbers: false as soon as the difference is NaN.\<close>

definition js_minus_gt :: "real \<Rightarrow> real option \<Rightarrow> real \<Rightarrow> bool" where
  "js_minus_gt a b c = (case b of None \<Rightarrow> False | Some b' \<Rightarrow> a - b' > c)"

definition TASBEEH_COUNTS_KEY :: string where
  "TASBEEH_COUNTS_KEY = ''tasbeeh_counts''"

definition LAST_TASBEEH_KEY :: string where
  "LAST_TASBEEH_KEY = ''last_tasbeeh''"

definition STORAGE_EXPIRY_TIME :: int where
  "STORAGE_EXPIRY_TIME = 30 * 60 * 1000"

text \<open>
  \<open>saveWithExpiry(key, value)\<close>, at the clock reading \<open>now\<close> (milliseconds, the
  value of \<open>new Date().getTime()\<close>).
\<close>

definition saveWithExpiry ::
  "js_runtime \<Rightarrow> int \<Rightarrow> async_storage \<Rightarrow> string \<Rightarrow> json \<Rightarrow> async_storage" where
  "saveWithExpiry rt now store key v =
     (let item = JObj [(''value'', v), (''timestamp'', JNum (of_int now))]
      in store(key \<mapsto> JSON_stringify rt item))"

text \<open>
  \<open>getWithExpiry(key)\<close>: the body of the \<open>try\<close> block, where a throw is
  \<open>Inl\<close>, and the function with its \<open>catch\<close>, which returns \<open>null\<close>. The
  result is the value returned and the storage left behind.
\<close>

definition getWithExpiry_try ::
  "js_runtime \<Rightarrow> int \<Rightarrow> async_storage \<Rightarrow> string \<Rightarrow> js_error + (jsvalue \<times> async_storage)" where
  "getWithExpiry_try rt now store key =
     (case store key of
        None \<Rightarrow> Inr (Value JNull, store)
      | Some itemStr \<Rightarrow>
          if itemStr = [] then Inr (Value JNull, store)
          else
            (case JSON_parse rt itemStr of
               None \<Rightarrow> Inl SyntaxError
             | Some item \<Rightarrow>
                 (case get_prop item ''timestamp'' of
                    Inl e \<Rightarrow> Inl e
                  | Inr ts \<Rightarrow>
                      (case ToNumber rt ts of
                         Inl e \<Rightarrow> Inl e
                       | Inr t \<Rightarrow>
                           if js_minus_gt (of_int now) t (of_int STORAGE_EXPIRY_TIME)
                           then Inr (Value JNull, store(key := None))
                           else
                             (case get_prop item ''value'' of
                                Inl e \<Rightarrow> Inl e
                              | Inr v \<Rightarrow> Inr (v, store))))))"

definition getWithExpiry ::
  "js_runtime \<Rightarrow> int \<Rightarrow> async_storage \<Rightarrow> string \<Rightarrow> jsvalue \<times> async_storage" where
  "getWithExpiry rt now store key =
     (case getWithExpiry_try rt now store key of
        Inl e \<Rightarrow> (Value JNull, store)
      | Inr r \<Rightarrow> r)"

text \<open>The counter screen's state and \<open>handleReset\<close>.\<close>

record AdhkarItem =
  id :: string
  name :: string
  recommended :: int
  category :: string

record tasbeeh_state =
  counts :: "string \<rightharpoonup> int"
  selectedAdhkar :: "AdhkarItem option"
  countViewVisible :: bool
  count :: int
  vibrations :: "nat list list"

definition handleReset :: "tasbeeh_state \<Rightarrow> tasbeeh_state" where
  "handleReset s =
     (case selectedAdhkar s of
        None \<Rightarrow> s
      | Some a \<Rightarrow>
          (let s1 = s\<lparr>count := 0\<rparr>;
               newCounts = (counts s)(id a \<mapsto> 0);
               s2 = s1\<lparr>counts := newCounts\<rparr>
           in s2\<lparr>vibrations := vibrations s2 @ [[0, 30, 30, 30]]\<rparr>))"


text \<open>
  A stand-in runtime for worked examples. It parses two strings: the item
  \<open>saveWithExpiry\<close> builds for the value 33 at clock reading 1000, and an item with a
  value and no timestamp; it prints every item as the first.
\<close>

definition example_runtime :: js_runtime where
  \<open>example_runtime =
     \<lparr>JSON_parse = (\<lambda>s. if s = ''{"value":33,"timestamp":1000}''
                         then Some (JObj [(''value'', JNum 33), (''timestamp'', JNum 1000)])
                         else if s = ''{"value":33}''
                         then Some (JObj [(''value'', JNum 33)])
                         else None),
      JSON_stringify = (\<lambda>j. ''{"value":33,"timestamp":1000}''),
      ToNumber_object = (\<lambda>j. Inr None)\<rparr>\<close>


section \<open>Facts about the runtime functions\<close>


lemma Math_atan2_bounds: "- pi < Math_atan2 y x \<and> Math_atan2 y x \<le> pi"
proof -
  have a: "- (pi / 2) < arctan (y / x)" "arctan (y / x) < pi / 2"
    by (rule arctan_lbound, rule arctan_ubound)
  have p: "0 < pi" by (rule pi_gt_zero)
  show ?thesis
  proof (cases "0 < x")
    case True
    then show ?thesis using a p by (simp add: Math_atan2_def)
  next
    case nx: False
    show ?thesis
    proof (cases "x < 0")
      case True
      show ?thesis
      proof (cases "0 \<le> y")
        case y0: True
        then have "y / x \<le> 0" using True by (simp add: divide_nonneg_neg)
        then have "arctan (y / x) \<le> 0" by (simp add: arctan_le_zero_iff)
        then show ?thesis using True y0 a p by (simp add: Math_atan2_def)
      next
        case y0: False
        then have "0 < y / x" using True by (simp add: divide_neg_neg)
        then have "0 < arctan (y / x)" by (simp add: zero_less_arctan_iff)
        then show ?thesis using True y0 a p by (simp add: Math_atan2_def)
      qed
    next
      case False
      then have "x = 0" using nx by simp
      then have "Math_atan2 y x = pi / 2 \<or> Math_atan2 y x = - (pi / 2) \<or> Math_atan2 y x = 0"
        by (simp add: Math_atan2_def)
      then show ?thesis using p by linarith
    qed
  qed
qed

lemma polar_arctan:
  assumes "x \<noteq> 0"
  shows "sqrt (x\<^sup>2 + y\<^sup>2) * cos (arctan (y / x)) = \<bar>x\<bar>"
    and "sqrt (x\<^sup>2 + y\<^sup>2) * sin (arctan (y / x)) = \<bar>x\<bar> * (y / x)"
proof -
  have x2: "0 < x\<^sup>2" using assms by simp
  have "1 + (y / x)\<^sup>2 = (x\<^sup>2 + y\<^sup>2) / x\<^sup>2"
    using assms by (simp add: field_simps power2_eq_square)
  then have s: "sqrt (1 + (y / x)\<^sup>2) = sqrt (x\<^sup>2 + y\<^sup>2) / \<bar>x\<bar>"
    by (simp add: real_sqrt_divide)
  have r: "0 < sqrt (x\<^sup>2 + y\<^sup>2)"
    using x2 by (simp add: add_pos_nonneg)
  show "sqrt (x\<^sup>2 + y\<^sup>2) * cos (arctan (y / x)) = \<bar>x\<bar>"
    using r assms by (simp add: cos_arctan s)
  show "sqrt (x\<^sup>2 + y\<^sup>2) * sin (arctan (y / x)) = \<bar>x\<bar> * (y / x)"
    using r assms by (simp add: sin_arctan s)
qed

text \<open>
  \<open>Math_atan2 y x\<close> is the polar angle of \<open>(x, y)\<close>: with the radius
  \<open>sqrt (x\<^sup>2 + y\<^sup>2)\<close> it gives the point back.
\<close>

lemma Math_atan2_polar:
  "sqrt (x\<^sup>2 + y\<^sup>2) * cos (Math_atan2 y x) = x
   \<and> sqrt (x\<^sup>2 + y\<^sup>2) * sin (Math_atan2 y x) = y"
proof (cases "x = 0")
  case True
  then show ?thesis by (simp add: Math_atan2_def)
next
  case False
  note p = polar_arctan[OF False, of y]
  show ?thesis
  proof (cases "0 < x")
    case True
    then show ?thesis using p by (simp add: Math_atan2_def)
  next
    case nx: False
    then have neg: "x < 0" using False by simp
    then show ?thesis using p by (simp add: Math_atan2_def)
  qed
qed

lemma js_rem_nonneg:
  assumes "0 \<le> a" "0 < b"
  shows "js_rem a b = a - b * of_int \<lfloor>a / b\<rfloor>" "0 \<le> js_rem a b" "js_rem a b < b"
proof -
  have q: "0 \<le> a / b" using assms by simp
  show e: "js_rem a b = a - b * of_int \<lfloor>a / b\<rfloor>"
    using q by (simp add: js_rem_def js_trunc_def)
  have "of_int \<lfloor>a / b\<rfloor> \<le> a / b" by (rule of_int_floor_le)
  then have "of_int \<lfloor>a / b\<rfloor> * b \<le> a" using assms(2) by (simp only: pos_le_divide_eq)
  then have "b * of_int \<lfloor>a / b\<rfloor> \<le> a" by (simp only: mult.commute)
  then show "0 \<le> js_rem a b" using e by simp
  have "a / b < of_int \<lfloor>a / b\<rfloor> + 1" by linarith
  then have "a < (of_int \<lfloor>a / b\<rfloor> + 1) * b" using assms(2) by (simp only: pos_divide_less_eq)
  then have "a < b * (of_int \<lfloor>a / b\<rfloor> + 1)" by (simp only: mult.commute)
  then show "js_rem a b < b" using e by (simp add: algebra_simps)
qed

lemma degrees_bounds:
  assumes "- pi < t" "t \<le> pi"
  shows "- 180 < degrees t \<and> degrees t \<le> 180"
proof -
  have p: "0 < pi" by (rule pi_gt_zero)
  have "- 180 * pi < t * 180" using assms(1) by linarith
  then have lo: "- 180 < t * 180 / pi" using p by (simp only: pos_less_divide_eq)
  have "t * 180 \<le> 180 * pi" using assms(2) by linarith
  then have hi: "t * 180 / pi \<le> 180" using p by (simp only: pos_divide_le_eq)
  show ?thesis unfolding degrees_def using lo hi by (rule conjI)
qed

lemma js_rem_360_pos:
  assumes "0 \<le> d" "d < 360"
  shows "js_rem (d + 360) 360 = d"
proof -
  have "\<lfloor>(d + 360) / 360\<rfloor> = 1"
    by (rule floor_unique) (use assms in simp_all)
  moreover have "0 \<le> (d + 360) / 360" using assms by simp
  ultimately show ?thesis by (simp add: js_rem_def js_trunc_def)
qed

lemma js_rem_360_neg:
  assumes "- 360 \<le> d" "d < 0"
  shows "js_rem (d + 360) 360 = d + 360"
proof -
  have "\<lfloor>(d + 360) / 360\<rfloor> = 0"
    by (rule floor_unique) (use assms in simp_all)
  moreover have "0 \<le> (d + 360) / 360" using assms by simp
  ultimately show ?thesis by (simp add: js_rem_def js_trunc_def)
qed

lemma real_mod_range:
  assumes "0 < m"
  shows "0 \<le> real_mod a m \<and> real_mod a m < m"
proof -
  have "of_int \<lfloor>a / m\<rfloor> \<le> a / m" by (rule of_int_floor_le)
  then have "of_int \<lfloor>a / m\<rfloor> * m \<le> a" using assms by (simp only: pos_le_divide_eq)
  then have lo: "m * of_int \<lfloor>a / m\<rfloor> \<le> a" by (simp only: mult.commute)
  have "a / m < of_int \<lfloor>a / m\<rfloor> + 1" by linarith
  then have "a < (of_int \<lfloor>a / m\<rfloor> + 1) * m" using assms by (simp only: pos_divide_less_eq)
  then have "a < m * (of_int \<lfloor>a / m\<rfloor> + 1)" by (simp only: mult.commute)
  then have hi: "a - m * of_int \<lfloor>a / m\<rfloor> < m" by (simp add: algebra_simps)
  show ?thesis using lo hi by (simp add: real_mod_def)
qed

lemma real_mod_shift: "m \<noteq> 0 \<Longrightarrow> real_mod (a + m) m = real_mod a m"
proof -
  assume m: "m \<noteq> 0"
  have "(a + m) / m = a / m + 1" using m by (simp add: field_simps)
  then have "\<lfloor>(a + m) / m\<rfloor> = \<lfloor>a / m\<rfloor> + 1" by simp
  then show ?thesis by (simp add: real_mod_def algebra_simps)
qed

lemma normalize_360:
  assumes "- 360 \<le> d"
  shows "js_rem (d + 360) 360 = real_mod d 360"
proof -
  have "js_rem (d + 360) 360 = real_mod (d + 360) 360"
    using assms js_rem_nonneg(1)[of "d + 360" 360] by (simp add: real_mod_def)
  then show ?thesis by (simp add: real_mod_shift)
qed

lemma to_degrees: "t * (180 / Math_PI) = degrees t"
  by (simp add: Math_PI_def degrees_def)

lemma to_radians: "d * (Math_PI / 180) = radians d"
  by (simp add: Math_PI_def radians_def)

lemma degrees_atan2_bounds:
  "- 180 < degrees (Math_atan2 y x) \<and> degrees (Math_atan2 y x) \<le> 180"
  using degrees_bounds[of "Math_atan2 y x"] Math_atan2_bounds[of y x]
  by blast

lemma qiblaDirection_unfold:
  "qiblaDirection (calculateQiblaDirection c s) =
     js_rem (degrees (Math_atan2
        (sin (radians KAABA_LONGITUDE - radians (longitude c)) * cos (radians KAABA_LATITUDE))
        (cos (radians (latitude c)) * sin (radians KAABA_LATITUDE)
           - sin (radians (latitude c)) * cos (radians KAABA_LATITUDE)
               * cos (radians KAABA_LONGITUDE - radians (longitude c)))) + 360) 360"
  unfolding calculateQiblaDirection_def Let_def to_degrees to_radians Math_sin_def Math_cos_def
  by simp

lemma heading_unfold:
  "heading (calculateHeading os s) =
     js_rem (degrees (if os = ''ios''
                      then Math_atan2 (mag_y (magnetometerData s)) (mag_x (magnetometerData s))
                      else Math_atan2 (mag_x (magnetometerData s)) (mag_y (magnetometerData s))) + 360) 360"
  unfolding calculateHeading_def Let_def to_degrees
  by simp

text \<open>
  Claim C1. For every observer coordinate, \<open>calculateQiblaDirection\<close> stores the
  initial great-circle bearing to the fixed target (21.4225, 39.8262) as the
  specification words it: both coordinates converted to radians,
  \<open>y = sin(lon2 - lon1) * cos(lat2)\<close>,
  \<open>x = cos(lat1) * sin(lat2) - sin(lat1) * cos(lat2) * cos(lon2 - lon1)\<close>,
  \<open>atan2(y, x)\<close> converted to degrees, then \<open>(bearing + 360) mod 360\<close>. The
  program's truncating \<open>%\<close> agrees with the mathematical \<open>mod\<close> here because the
  dividend is never negative.
\<close>

theorem calculateQiblaDirection_is_initial_bearing:
  "qiblaDirection (calculateQiblaDirection c s) =
     computeBearing c \<lparr>latitude = 21.4225, longitude = 39.8262\<rparr>"
proof -
  define b where "b = degrees (Math_atan2
        (sin (radians KAABA_LONGITUDE - radians (longitude c)) * cos (radians KAABA_LATITUDE))
        (cos (radians (latitude c)) * sin (radians KAABA_LATITUDE)
           - sin (radians (latitude c)) * cos (radians KAABA_LATITUDE)
               * cos (radians KAABA_LONGITUDE - radians (longitude c))))"
  have "- 180 < b" unfolding b_def using degrees_atan2_bounds by blast
  then have "0 \<le> b + 360" by simp
  then have "js_rem (b + 360) 360 = real_mod (b + 360) 360"
    using js_rem_nonneg(1)[of "b + 360" 360] by (simp add: real_mod_def)
  moreover have "qiblaDirection (calculateQiblaDirection c s) = js_rem (b + 360) 360"
    unfolding b_def by (rule qiblaDirection_unfold)
  moreover have "computeBearing c \<lparr>latitude = 21.4225, longitude = 39.8262\<rparr> = real_mod (b + 360) 360"
    unfolding b_def computeBearing_def Let_def KAABA_LATITUDE_def KAABA_LONGITUDE_def by simp
  ultimately show ?thesis by simp
qed

lemma qiblaDirection_range:
  "0 \<le> qiblaDirection (calculateQiblaDirection c s) \<and> qiblaDirection (calculateQiblaDirection c s) < 360"
proof -
  define b where "b = degrees (Math_atan2
        (sin (radians KAABA_LONGITUDE - radians (longitude c)) * cos (radians KAABA_LATITUDE))
        (cos (radians (latitude c)) * sin (radians KAABA_LATITUDE)
           - sin (radians (latitude c)) * cos (radians KAABA_LATITUDE)
               * cos (radians KAABA_LONGITUDE - radians (longitude c))))"
  have "- 180 < b" unfolding b_def using degrees_atan2_bounds by blast
  then have "0 \<le> b + 360" by simp
  then have "0 \<le> js_rem (b + 360) 360 \<and> js_rem (b + 360) 360 < 360"
    using js_rem_nonneg(2,3)[of "b + 360" 360] by simp
  moreover have "qiblaDirection (calculateQiblaDirection c s) = js_rem (b + 360) 360"
    unfolding b_def by (rule qiblaDirection_unfold)
  ultimately show ?thesis by simp
qed

lemma heading_range:
  "0 \<le> heading (calculateHeading os s) \<and> heading (calculateHeading os s) < 360"
proof -
  define b where "b = degrees (if os = ''ios''
                      then Math_atan2 (mag_y (magnetometerData s)) (mag_x (magnetometerData s))
                      else Math_atan2 (mag_x (magnetometerData s)) (mag_y (magnetometerData s)))"
  have "- 180 < b" unfolding b_def using degrees_atan2_bounds by simp
  then have "0 \<le> b + 360" by simp
  then have "0 \<le> js_rem (b + 360) 360 \<and> js_rem (b + 360) 360 < 360"
    using js_rem_nonneg(2,3)[of "b + 360" 360] by simp
  moreover have "heading (calculateHeading os s) = js_rem (b + 360) 360"
    unfolding b_def by (rule heading_unfold)
  ultimately show ?thesis by simp
qed

lemma heading_zero_sample:
  "heading (calculateHeading os (s\<lparr>magnetometerData := \<lparr>mag_x = 0, mag_y = 0, mag_z = 0\<rparr>\<rparr>)) = 0"
proof -
  have "Math_atan2 0 0 = 0" by (simp add: Math_atan2_def)
  then show ?thesis
    using js_rem_360_pos[of 0] by (simp add: heading_unfold degrees_def)
qed

lemma real_mod_small: "0 \<le> a \<Longrightarrow> a < m \<Longrightarrow> real_mod a m = a"
proof -
  assume a: "0 \<le> a" "a < m"
  then have "\<lfloor>a / m\<rfloor> = 0" by (intro floor_unique) simp_all
  then show ?thesis by (simp add: real_mod_def)
qed

lemma Math_atan2_east: "Math_atan2 1 0 = pi / 2"
  by (simp add: Math_atan2_def)

lemma degrees_half_pi: "degrees (pi / 2) = 90"
  by (simp add: degrees_def)

lemma degrees_first_quadrant:
  assumes "0 < t" "t < pi / 2"
  shows "0 < degrees t \<and> degrees t < 90"
proof -
  have p: "0 < pi" by (rule pi_gt_zero)
  have "0 < t * 180" using assms(1) by simp
  then have lo: "0 < t * 180 / pi" using p by simp
  have "t * 180 < 90 * pi" using assms(2) by linarith
  then have hi: "t * 180 / pi < 90" using p by (simp only: pos_divide_less_eq)
  show ?thesis unfolding degrees_def using lo hi by (rule conjI)
qed

lemma kaaba_radians:
  "0 < radians KAABA_LATITUDE \<and> radians KAABA_LATITUDE < pi / 2
   \<and> 0 < radians KAABA_LONGITUDE \<and> radians KAABA_LONGITUDE < pi / 2"
proof -
  have p: "0 < pi" by (rule pi_gt_zero)
  show ?thesis
    unfolding radians_def KAABA_LATITUDE_def KAABA_LONGITUDE_def using p by simp
qed


section \<open>The bearing and the heading\<close>

text \<open>
  Claim C2. For every observer coordinate the bearing stored by
  \<open>calculateQiblaDirection\<close> lies in \<open>[0, 360)\<close>; for every magnetometer sample the
  heading stored by \<open>calculateHeading\<close> lies in \<open>[0, 360)\<close> on either platform, and
  the sample \<open>(0, 0, 0)\<close> gives the heading 0. Both functions are total: no input
  makes them throw. (Over the reals there is no NaN to produce.)
\<close>

theorem angles_in_range:
  "0 \<le> qiblaDirection (calculateQiblaDirection c s)
   \<and> qiblaDirection (calculateQiblaDirection c s) < 360
   \<and> 0 \<le> heading (calculateHeading os s)
   \<and> heading (calculateHeading os s) < 360
   \<and> heading (calculateHeading os (s\<lparr>magnetometerData := \<lparr>mag_x = 0, mag_y = 0, mag_z = 0\<rparr>\<rparr>)) = 0"
  using qiblaDirection_range[of c s] heading_range[of os s] heading_zero_sample[of os s]
  by blast

text \<open>
  Claim C3. \<open>calculateHeading\<close> uses one of two formulas, chosen by the platform: on
  iOS the raw angle is \<open>atan2(y, x)\<close> in degrees, on any other platform it is
  \<open>atan2(x, y)\<close> in degrees; the stored heading is the representative of the raw angle
  in \<open>[0, 360)\<close>.
\<close>

theorem calculateHeading_platform_formulas:
  "heading (calculateHeading ''ios'' s) =
     real_mod (degrees (Math_atan2 (mag_y (magnetometerData s)) (mag_x (magnetometerData s)))) 360
   \<and> (os \<noteq> ''ios'' \<longrightarrow>
        heading (calculateHeading os s) =
          real_mod (degrees (Math_atan2 (mag_x (magnetometerData s)) (mag_y (magnetometerData s)))) 360)
   \<and> 0 \<le> heading (calculateHeading os s) \<and> heading (calculateHeading os s) < 360"
proof -
  have n: "js_rem (degrees (Math_atan2 a b) + 360) 360 = real_mod (degrees (Math_atan2 a b)) 360"
    for a b
    using degrees_atan2_bounds[of a b] by (intro normalize_360) simp
  have "heading (calculateHeading ''ios'' s) =
     real_mod (degrees (Math_atan2 (mag_y (magnetometerData s)) (mag_x (magnetometerData s)))) 360"
    by (simp add: heading_unfold n)
  moreover have "os \<noteq> ''ios'' \<longrightarrow>
        heading (calculateHeading os s) =
          real_mod (degrees (Math_atan2 (mag_x (magnetometerData s)) (mag_y (magnetometerData s)))) 360"
    by (simp add: heading_unfold n)
  ultimately show ?thesis using heading_range[of os s] by blast
qed

theorem calculateHeading_platform_formulas_witness:
  "''android'' \<noteq> ''ios''
   \<and> heading (calculateHeading ''android''
        (initial_state\<lparr>magnetometerData := \<lparr>mag_x = 1, mag_y = 0, mag_z = 5\<rparr>\<rparr>)) = 90
   \<and> heading (calculateHeading ''ios''
        (initial_state\<lparr>magnetometerData := \<lparr>mag_x = 0, mag_y = 1, mag_z = 5\<rparr>\<rparr>)) = 90"
  using calculateHeading_platform_formulas
          [of "initial_state\<lparr>magnetometerData := \<lparr>mag_x = 1, mag_y = 0, mag_z = 5\<rparr>\<rparr>" "''android''"]
        calculateHeading_platform_formulas
          [of "initial_state\<lparr>magnetometerData := \<lparr>mag_x = 0, mag_y = 1, mag_z = 5\<rparr>\<rparr>" "''android''"]
  by (simp add: Math_atan2_east degrees_half_pi real_mod_small)

text \<open>
  Claim C6. With the observer at the target itself (the only target the function has is
  the Kaaba coordinate) both arguments of \<open>atan2\<close> are 0, \<open>atan2(0, 0) = 0\<close>, and the
  stored bearing is 0: a number, not NaN.
\<close>

theorem calculateQiblaDirection_at_target:
  assumes "latitude c = KAABA_LATITUDE" "longitude c = KAABA_LONGITUDE"
  shows "qiblaDirection (calculateQiblaDirection c s) = 0"
proof -
  have "Math_atan2 0 0 = 0" by (simp add: Math_atan2_def)
  then show ?thesis
    using assms js_rem_360_pos[of 0] by (simp add: qiblaDirection_unfold degrees_def)
qed

theorem calculateQiblaDirection_at_target_witness:
  "latitude \<lparr>latitude = 21.4225, longitude = 39.8262\<rparr> = KAABA_LATITUDE
   \<and> longitude \<lparr>latitude = 21.4225, longitude = 39.8262\<rparr> = KAABA_LONGITUDE
   \<and> qiblaDirection (calculateQiblaDirection \<lparr>latitude = 21.4225, longitude = 39.8262\<rparr> initial_state) = 0"
proof -
  have a: "latitude \<lparr>latitude = 21.4225, longitude = 39.8262\<rparr> = KAABA_LATITUDE"
    by (simp add: KAABA_LATITUDE_def)
  have b: "longitude \<lparr>latitude = 21.4225, longitude = 39.8262\<rparr> = KAABA_LONGITUDE"
    by (simp add: KAABA_LONGITUDE_def)
  show ?thesis using a b calculateQiblaDirection_at_target[OF a b, of initial_state] by blast
qed

text \<open>
  Claim C7. Two magnetometer samples that agree on x and y give the same heading,
  whatever their z components are.
\<close>

theorem calculateHeading_ignores_z:
  assumes "mag_x (magnetometerData s1) = mag_x (magnetometerData s2)"
      and "mag_y (magnetometerData s1) = mag_y (magnetometerData s2)"
  shows "heading (calculateHeading os s1) = heading (calculateHeading os s2)"
  using assms by (simp add: heading_unfold)

theorem calculateHeading_ignores_z_witness:
  "mag_z (magnetometerData (initial_state\<lparr>magnetometerData := \<lparr>mag_x = 3, mag_y = 4, mag_z = 0\<rparr>\<rparr>))
     \<noteq> mag_z (magnetometerData (initial_state\<lparr>magnetometerData := \<lparr>mag_x = 3, mag_y = 4, mag_z = 50\<rparr>\<rparr>))
   \<and> heading (calculateHeading ''android''
        (initial_state\<lparr>magnetometerData := \<lparr>mag_x = 3, mag_y = 4, mag_z = 0\<rparr>\<rparr>))
     = heading (calculateHeading ''android''
        (initial_state\<lparr>magnetometerData := \<lparr>mag_x = 3, mag_y = 4, mag_z = 50\<rparr>\<rparr>))"
  using calculateHeading_ignores_z
    [of "initial_state\<lparr>magnetometerData := \<lparr>mag_x = 3, mag_y = 4, mag_z = 0\<rparr>\<rparr>"
        "initial_state\<lparr>magnetometerData := \<lparr>mag_x = 3, mag_y = 4, mag_z = 50\<rparr>\<rparr>"
        "''android''"]
  by simp

text \<open>
  Claim C8. For the observer at 0 N, 0 E the bearing to the Kaaba lies strictly between
  0 and 90 degrees: both \<open>atan2\<close> arguments are positive there.
\<close>

theorem qibla_from_origin_points_north_east:
  "0 < qiblaDirection (calculateQiblaDirection \<lparr>latitude = 0, longitude = 0\<rparr> s)
   \<and> qiblaDirection (calculateQiblaDirection \<lparr>latitude = 0, longitude = 0\<rparr> s) < 90"
proof -
  define la where "la = radians KAABA_LATITUDE"
  define lo where "lo = radians KAABA_LONGITUDE"
  have r: "0 < la" "la < pi / 2" "0 < lo" "lo < pi / 2"
    using kaaba_radians unfolding la_def lo_def by simp_all
  have p: "0 < pi" by (rule pi_gt_zero)
  have x: "0 < sin la" using r p by (intro sin_gt_zero) simp_all
  have cla: "0 < cos la" using r by (intro cos_gt_zero) simp_all
  have slo: "0 < sin lo" using r p by (intro sin_gt_zero) simp_all
  have y: "0 < sin lo * cos la" using slo cla by simp
  define t where "t = arctan (sin lo * cos la / sin la)"
  have "0 < sin lo * cos la / sin la" using x y by simp
  then have t0: "0 < t" unfolding t_def by (simp add: zero_less_arctan_iff)
  have t1: "t < pi / 2" unfolding t_def by (rule arctan_ubound)
  have at: "Math_atan2 (sin lo * cos la) (sin la) = t"
    using x by (simp add: Math_atan2_def t_def)
  have d: "0 < degrees t \<and> degrees t < 90" using t0 t1 by (rule degrees_first_quadrant)
  have "qiblaDirection (calculateQiblaDirection \<lparr>latitude = 0, longitude = 0\<rparr> s)
          = js_rem (degrees t + 360) 360"
    by (simp add: qiblaDirection_unfold radians_def[of 0] at
        la_def[symmetric] lo_def[symmetric])
  also have "\<dots> = degrees t" using d by (intro js_rem_360_pos) simp_all
  finally show ?thesis using d by simp
qed


section \<open>The rotations handed to the rendered transforms\<close>

text \<open>
  Claim C4. The needle rotation is exactly \<open>qiblaDirection - heading\<close> and the rose
  rotation exactly \<open>- heading\<close>, with no normalization; so exchanging bearing and
  heading negates the needle rotation.
\<close>

theorem rotations_are_plain_differences:
  "needleRotation s = qiblaDirection s - heading s
   \<and> compassRotation s = - heading s
   \<and> needleRotation (s\<lparr>qiblaDirection := b, heading := h\<rparr>)
       = - needleRotation (s\<lparr>qiblaDirection := h, heading := b\<rparr>)"
  by (simp add: needleRotation_def compassRotation_def)

lemma heading_calculateQiblaDirection [simp]:
  "heading (calculateQiblaDirection c s) = heading s"
  by (simp add: calculateQiblaDirection_def Let_def)

lemma qiblaDirection_calculateHeading [simp]:
  "qiblaDirection (calculateHeading os s) = qiblaDirection s"
  by (simp add: calculateHeading_def Let_def)

lemma location_calculateHeading [simp]:
  "location (calculateHeading os s) = location s"
  by (simp add: calculateHeading_def Let_def)

lemma location_calculateQiblaDirection [simp]:
  "location (calculateQiblaDirection c s) = location s"
  by (simp add: calculateQiblaDirection_def Let_def)

lemma heading_effect_normalized:
  assumes "0 \<le> qiblaDirection s \<and> qiblaDirection s < 360 \<and> 0 \<le> heading s \<and> heading s < 360"
  shows "0 \<le> qiblaDirection (heading_effect os s) \<and> qiblaDirection (heading_effect os s) < 360
         \<and> 0 \<le> heading (heading_effect os s) \<and> heading (heading_effect os s) < 360"
  using assms heading_range[of os s] by (simp add: heading_effect_def)

lemma reachable_normalized:
  "reachable os s \<Longrightarrow>
     0 \<le> qiblaDirection s \<and> qiblaDirection s < 360 \<and> 0 \<le> heading s \<and> heading s < 360"
proof (induction rule: reachable.induct)
  case mounted
  show ?case by (simp add: initial_state_def)
next
  case (sampled s d)
  then have "0 \<le> qiblaDirection (s\<lparr>magnetometerData := d\<rparr>)
             \<and> qiblaDirection (s\<lparr>magnetometerData := d\<rparr>) < 360
             \<and> 0 \<le> heading (s\<lparr>magnetometerData := d\<rparr>)
             \<and> heading (s\<lparr>magnetometerData := d\<rparr>) < 360"
    by simp
  then show ?case unfolding on_sample_def by (rule heading_effect_normalized)
next
  case (located s c)
  then have "0 \<le> qiblaDirection (calculateQiblaDirection c (s\<lparr>location := Some c\<rparr>))
             \<and> qiblaDirection (calculateQiblaDirection c (s\<lparr>location := Some c\<rparr>)) < 360
             \<and> 0 \<le> heading (calculateQiblaDirection c (s\<lparr>location := Some c\<rparr>))
             \<and> heading (calculateQiblaDirection c (s\<lparr>location := Some c\<rparr>)) < 360"
    using qiblaDirection_range[of c "s\<lparr>location := Some c\<rparr>"] by simp
  then show ?case unfolding on_location_def by (rule heading_effect_normalized)
qed

lemma heading_android_east:
  "heading (calculateHeading ''android''
      (s\<lparr>magnetometerData := \<lparr>mag_x = 1, mag_y = 0, mag_z = 0\<rparr>\<rparr>)) = 90"
  using js_rem_360_pos[of 90]
  by (simp add: heading_unfold Math_atan2_def degrees_def)

lemma east_reachable:
  "reachable ''android''
     (on_sample ''android'' \<lparr>mag_x = 1, mag_y = 0, mag_z = 0\<rparr>
        (on_location ''android'' \<lparr>latitude = 0, longitude = 0\<rparr> initial_state))"
  by (intro reachable.intros)

lemma east_heading:
  "heading (on_sample ''android'' \<lparr>mag_x = 1, mag_y = 0, mag_z = 0\<rparr>
        (on_location ''android'' \<lparr>latitude = 0, longitude = 0\<rparr> initial_state)) = 90"
  by (simp add: on_sample_def on_location_def heading_effect_def heading_android_east)

text \<open>
  Claim C5, as stated, fails: on Android, after a location fix and the sample
  \<open>(1, 0, 0)\<close> the heading is 90 and the rose rotation handed to the transform is
  \<open>-90\<close>.
\<close>

theorem compassRotation_negative_counterexample:
  "reachable ''android''
     (on_sample ''android'' \<lparr>mag_x = 1, mag_y = 0, mag_z = 0\<rparr>
        (on_location ''android'' \<lparr>latitude = 0, longitude = 0\<rparr> initial_state))
   \<and> compassRotation
       (on_sample ''android'' \<lparr>mag_x = 1, mag_y = 0, mag_z = 0\<rparr>
          (on_location ''android'' \<lparr>latitude = 0, longitude = 0\<rparr> initial_state)) = - 90
   \<and> \<not> (0 \<le> compassRotation
       (on_sample ''android'' \<lparr>mag_x = 1, mag_y = 0, mag_z = 0\<rparr>
          (on_location ''android'' \<lparr>latitude = 0, longitude = 0\<rparr> initial_state)))"
  using east_reachable east_heading by (simp add: compassRotation_def)

text \<open>
  Claim C5, amended. In every state the screen reaches, \<open>qiblaDirection\<close> and
  \<open>heading\<close> lie in \<open>[0, 360)\<close>; the two rotations handed to the transforms are not
  normalized: \<open>compassRotation\<close> lies in \<open>(-360, 0]\<close> and \<open>needleRotation\<close> in
  \<open>(-360, 360)\<close>.
\<close>

theorem presented_angles_ranges:
  assumes "reachable os s"
  shows "0 \<le> qiblaDirection s \<and> qiblaDirection s < 360
         \<and> 0 \<le> heading s \<and> heading s < 360
         \<and> - 360 < compassRotation s \<and> compassRotation s \<le> 0
         \<and> - 360 < needleRotation s \<and> needleRotation s < 360"
  using reachable_normalized[OF assms]
  by (simp add: compassRotation_def needleRotation_def)

theorem presented_angles_ranges_witness:
  "reachable ''android''
     (on_sample ''android'' \<lparr>mag_x = 1, mag_y = 0, mag_z = 0\<rparr>
        (on_location ''android'' \<lparr>latitude = 0, longitude = 0\<rparr> initial_state))
   \<and> - 360 < needleRotation
       (on_sample ''android'' \<lparr>mag_x = 1, mag_y = 0, mag_z = 0\<rparr>
          (on_location ''android'' \<lparr>latitude = 0, longitude = 0\<rparr> initial_state))
   \<and> heading
       (on_sample ''android'' \<lparr>mag_x = 1, mag_y = 0, mag_z = 0\<rparr>
          (on_location ''android'' \<lparr>latitude = 0, longitude = 0\<rparr> initial_state)) < 360"
  using east_reachable presented_angles_ranges[OF east_reachable] by blast


section \<open>Storage with expiry\<close>

lemma getWithExpiry_absent:
  "store key = None \<Longrightarrow> getWithExpiry rt now store key = (Value JNull, store)"
  by (simp add: getWithExpiry_def getWithExpiry_try_def)

lemma getWithExpiry_unparseable:
  "store key = Some s \<Longrightarrow> JSON_parse rt s = None \<Longrightarrow>
     getWithExpiry rt now store key = (Value JNull, store)"
  by (simp add: getWithExpiry_def getWithExpiry_try_def)

lemma getWithExpiry_stamped:
  assumes "store key = Some s" "s \<noteq> []" "JSON_parse rt s = Some (JObj kvs)"
      and "map_of kvs ''timestamp'' = Some (JNum t)"
  shows "getWithExpiry rt now store key =
           (if real_of_int now - t \<le> 1800000
            then (case map_of kvs ''value'' of None \<Rightarrow> Undefined | Some v \<Rightarrow> Value v, store)
            else (Value JNull, store(key := None)))"
  using assms
  by (simp add: getWithExpiry_def getWithExpiry_try_def js_minus_gt_def STORAGE_EXPIRY_TIME_def
      not_le)

lemma getWithExpiry_after_save:
  assumes "JSON_parse rt (JSON_stringify rt (JObj [(''value'', v), (''timestamp'', JNum (of_int tsave))]))
             = Some (JObj [(''value'', v), (''timestamp'', JNum (of_int tsave))])"
      and "JSON_stringify rt (JObj [(''value'', v), (''timestamp'', JNum (of_int tsave))]) \<noteq> []"
  shows "getWithExpiry rt now (saveWithExpiry rt tsave store key v) key =
           (if now - tsave \<le> 1800000
            then (Value v, saveWithExpiry rt tsave store key v)
            else (Value JNull, store(key := None)))"
proof -
  define str where "str = JSON_stringify rt (JObj [(''value'', v), (''timestamp'', JNum (of_int tsave))])"
  have sv: "saveWithExpiry rt tsave store key v = store(key \<mapsto> str)"
    by (simp add: saveWithExpiry_def Let_def str_def)
  have k: "(store(key \<mapsto> str)) key = Some str" by simp
  have e: "(real_of_int now - real_of_int tsave \<le> 1800000) = (now - tsave \<le> 1800000)"
    by linarith
  show ?thesis
    unfolding sv
    using getWithExpiry_stamped[of "store(key \<mapsto> str)" key str rt
        "[(''value'', v), (''timestamp'', JNum (of_int tsave))]" "of_int tsave" now] assms
    by (simp add: str_def[symmetric] e)
qed

lemma getWithExpiry_only_if:
  assumes "fst (getWithExpiry rt now store key) \<noteq> Value JNull"
  shows "\<exists>s item ts n. store key = Some s \<and> JSON_parse rt s = Some item
           \<and> get_prop item ''timestamp'' = Inr ts \<and> ToNumber rt ts = Inr n
           \<and> \<not> js_minus_gt (of_int now) n 1800000
           \<and> get_prop item ''value'' = Inr (fst (getWithExpiry rt now store key))
           \<and> snd (getWithExpiry rt now store key) = store"
  using assms
  by (auto simp add: getWithExpiry_def getWithExpiry_try_def STORAGE_EXPIRY_TIME_def
      split: option.splits sum.splits if_splits)

text \<open>
  An item that has no \<open>timestamp\<close> member is outside what \<open>saveWithExpiry\<close> writes:
  the age is then NaN, the comparison is false, and the value is returned at any time.
\<close>

lemma getWithExpiry_unstamped:
  assumes "store key = Some s" "s \<noteq> []" "JSON_parse rt s = Some (JObj kvs)"
      and "map_of kvs ''timestamp'' = None"
  shows "getWithExpiry rt now store key =
           (case map_of kvs ''value'' of None \<Rightarrow> Undefined | Some v \<Rightarrow> Value v, store)"
  using assms
  by (simp add: getWithExpiry_def getWithExpiry_try_def js_minus_gt_def)

lemma getWithExpiry_value_only_if:
  assumes "fst (getWithExpiry rt now store key) \<noteq> Value JNull"
  shows "\<exists>s' item ts n. store key = Some s' \<and> JSON_parse rt s' = Some item
           \<and> get_prop item ''timestamp'' = Inr ts \<and> ToNumber rt ts = Inr n
           \<and> (n = None \<or> (\<exists>t. n = Some t \<and> real_of_int now - t \<le> 1800000))
           \<and> get_prop item ''value'' = Inr (fst (getWithExpiry rt now store key))
           \<and> snd (getWithExpiry rt now store key) = store"
proof -
  obtain s' item ts n where h: "store key = Some s'" "JSON_parse rt s' = Some item"
      "get_prop item ''timestamp'' = Inr ts" "ToNumber rt ts = Inr n"
      "\<not> js_minus_gt (of_int now) n 1800000"
      "get_prop item ''value'' = Inr (fst (getWithExpiry rt now store key))"
      "snd (getWithExpiry rt now store key) = store"
    using getWithExpiry_only_if[OF assms] by blast
  have "n = None \<or> (\<exists>t. n = Some t \<and> real_of_int now - t \<le> 1800000)"
    using h(5) by (cases n) (simp_all add: js_minus_gt_def not_less)
  then show ?thesis using h by blast
qed

lemma example_parse:
  \<open>JSON_parse example_runtime ''{"value":33,"timestamp":1000}''
     = Some (JObj [(''value'', JNum 33), (''timestamp'', JNum 1000)])\<close>
  \<open>JSON_parse example_runtime ''{"value":33}'' = Some (JObj [(''value'', JNum 33)])\<close>
  \<open>JSON_parse example_runtime ''garbage'' = None\<close>
  \<open>JSON_stringify example_runtime j = ''{"value":33,"timestamp":1000}''\<close>
  by (simp_all add: example_runtime_def)

text \<open>
  Claim C9, as stated, fails: the value is not returned only for a timestamp at most
  30 minutes old. A stored item with a value and no timestamp has the timestamp
  \<open>undefined\<close>; its age is NaN, the test \<open>now - item.timestamp > 1800000\<close> is false,
  and the value 33 comes back at the clock reading 99999999999, the storage unchanged.
\<close>

theorem getWithExpiry_unstamped_counterexample:
  \<open>get_prop (JObj [(''value'', JNum 33)]) ''timestamp'' = Inr Undefined
   \<and> getWithExpiry example_runtime 99999999999
         [''tasbeeh_counts'' \<mapsto> ''{"value":33}''] ''tasbeeh_counts''
       = (Value (JNum 33), [''tasbeeh_counts'' \<mapsto> ''{"value":33}''])\<close>
proof -
  have \<open>getWithExpiry example_runtime 99999999999
         [''tasbeeh_counts'' \<mapsto> ''{"value":33}''] ''tasbeeh_counts''
       = (Value (JNum 33), [''tasbeeh_counts'' \<mapsto> ''{"value":33}''])\<close>
    using getWithExpiry_unstamped
      [of \<open>[''tasbeeh_counts'' \<mapsto> ''{"value":33}'']\<close> \<open>''tasbeeh_counts''\<close>
          \<open>''{"value":33}''\<close> example_runtime \<open>[(''value'', JNum 33)]\<close> 99999999999]
    by (simp add: example_parse)
  then show ?thesis by simp
qed

text \<open>
  Claim C9, amended. \<open>getWithExpiry\<close> returns \<open>null\<close> and leaves the storage alone
  when the key is absent (or holds the empty string) and when the stored string does
  not parse. For a stored item whose timestamp is a number it returns the item's value
  if the timestamp is at most 1,800,000 ms (30 minutes) older than the current time,
  and otherwise returns \<open>null\<close> and removes the key. It returns anything but
  \<open>null\<close> only if the stored string parsed to an item whose timestamp is at most
  1,800,000 ms older than the current time or does not convert to a number; the result
  is then that item's \<open>value\<close> and the storage is unchanged. So a Tasbeeh count saved
  by \<open>saveWithExpiry\<close> and read more than 30 minutes later is absent.
\<close>

theorem getWithExpiry_thirty_minutes:
  "(store key = None \<or> store key = Some [] \<longrightarrow>
      getWithExpiry rt now store key = (Value JNull, store))
   \<and> (store key = Some s \<and> JSON_parse rt s = None \<longrightarrow>
      getWithExpiry rt now store key = (Value JNull, store))
   \<and> (store key = Some s \<and> s \<noteq> [] \<and> JSON_parse rt s = Some (JObj kvs)
        \<and> map_of kvs ''timestamp'' = Some (JNum t) \<longrightarrow>
      getWithExpiry rt now store key =
        (if real_of_int now - t \<le> 1800000
         then (case map_of kvs ''value'' of None \<Rightarrow> Undefined | Some v \<Rightarrow> Value v, store)
         else (Value JNull, store(key := None))))
   \<and> (fst (getWithExpiry rt now store key) \<noteq> Value JNull \<longrightarrow>
        (\<exists>s' item ts n. store key = Some s' \<and> JSON_parse rt s' = Some item
           \<and> get_prop item ''timestamp'' = Inr ts \<and> ToNumber rt ts = Inr n
           \<and> (n = None \<or> (\<exists>t'. n = Some t' \<and> real_of_int now - t' \<le> 1800000))
           \<and> get_prop item ''value'' = Inr (fst (getWithExpiry rt now store key))
           \<and> snd (getWithExpiry rt now store key) = store))
   \<and> (JSON_parse rt (JSON_stringify rt (JObj [(''value'', v), (''timestamp'', JNum (of_int tsave))]))
          = Some (JObj [(''value'', v), (''timestamp'', JNum (of_int tsave))])
        \<and> JSON_stringify rt (JObj [(''value'', v), (''timestamp'', JNum (of_int tsave))]) \<noteq> []
        \<and> 1800000 < now - tsave \<longrightarrow>
      getWithExpiry rt now (saveWithExpiry rt tsave store TASBEEH_COUNTS_KEY v) TASBEEH_COUNTS_KEY
        = (Value JNull, store(TASBEEH_COUNTS_KEY := None)))"
proof (intro conjI impI)
  assume "store key = None \<or> store key = Some []"
  then show "getWithExpiry rt now store key = (Value JNull, store)"
    by (auto simp add: getWithExpiry_def getWithExpiry_try_def)
next
  assume "store key = Some s \<and> JSON_parse rt s = None"
  then show "getWithExpiry rt now store key = (Value JNull, store)"
    by (simp add: getWithExpiry_unparseable)
next
  assume "store key = Some s \<and> s \<noteq> [] \<and> JSON_parse rt s = Some (JObj kvs)
        \<and> map_of kvs ''timestamp'' = Some (JNum t)"
  then show "getWithExpiry rt now store key =
        (if real_of_int now - t \<le> 1800000
         then (case map_of kvs ''value'' of None \<Rightarrow> Undefined | Some v \<Rightarrow> Value v, store)
         else (Value JNull, store(key := None)))"
    using getWithExpiry_stamped[of store key s rt kvs t now] by blast
next
  assume "fst (getWithExpiry rt now store key) \<noteq> Value JNull"
  then show "\<exists>s' item ts n. store key = Some s' \<and> JSON_parse rt s' = Some item
           \<and> get_prop item ''timestamp'' = Inr ts \<and> ToNumber rt ts = Inr n
           \<and> (n = None \<or> (\<exists>t'. n = Some t' \<and> real_of_int now - t' \<le> 1800000))
           \<and> get_prop item ''value'' = Inr (fst (getWithExpiry rt now store key))
           \<and> snd (getWithExpiry rt now store key) = store"
    by (rule getWithExpiry_value_only_if)
next
  assume a: "JSON_parse rt (JSON_stringify rt (JObj [(''value'', v), (''timestamp'', JNum (of_int tsave))]))
          = Some (JObj [(''value'', v), (''timestamp'', JNum (of_int tsave))])
        \<and> JSON_stringify rt (JObj [(''value'', v), (''timestamp'', JNum (of_int tsave))]) \<noteq> []
        \<and> 1800000 < now - tsave"
  then have "getWithExpiry rt now (saveWithExpiry rt tsave store TASBEEH_COUNTS_KEY v) TASBEEH_COUNTS_KEY =
           (if now - tsave \<le> 1800000
            then (Value v, saveWithExpiry rt tsave store TASBEEH_COUNTS_KEY v)
            else (Value JNull, store(TASBEEH_COUNTS_KEY := None)))"
    using getWithExpiry_after_save[of rt v tsave now store TASBEEH_COUNTS_KEY] by blast
  then show "getWithExpiry rt now (saveWithExpiry rt tsave store TASBEEH_COUNTS_KEY v) TASBEEH_COUNTS_KEY
        = (Value JNull, store(TASBEEH_COUNTS_KEY := None))"
    using a by simp
qed

theorem getWithExpiry_thirty_minutes_witness:
  \<open>getWithExpiry example_runtime 1801000 Map.empty ''tasbeeh_counts'' = (Value JNull, Map.empty)
   \<and> getWithExpiry example_runtime 1801000 [''tasbeeh_counts'' \<mapsto> ''garbage''] ''tasbeeh_counts''
       = (Value JNull, [''tasbeeh_counts'' \<mapsto> ''garbage''])
   \<and> getWithExpiry example_runtime 1801000
         [''tasbeeh_counts'' \<mapsto> ''{"value":33,"timestamp":1000}''] ''tasbeeh_counts''
       = (Value (JNum 33), [''tasbeeh_counts'' \<mapsto> ''{"value":33,"timestamp":1000}''])
   \<and> getWithExpiry example_runtime 1801001
         [''tasbeeh_counts'' \<mapsto> ''{"value":33,"timestamp":1000}''] ''tasbeeh_counts''
       = (Value JNull, Map.empty)
   \<and> getWithExpiry example_runtime 1801001
         (saveWithExpiry example_runtime 1000 Map.empty TASBEEH_COUNTS_KEY (JNum 33)) TASBEEH_COUNTS_KEY
       = (Value JNull, Map.empty)\<close>
proof -
  have absent: \<open>getWithExpiry example_runtime 1801000 Map.empty ''tasbeeh_counts''
                  = (Value JNull, Map.empty)\<close>
    using getWithExpiry_thirty_minutes
      [where store = Map.empty and key = \<open>''tasbeeh_counts''\<close> and rt = example_runtime
         and now = 1801000, THEN conjunct1]
    by simp
  have garbage: \<open>getWithExpiry example_runtime 1801000 [''tasbeeh_counts'' \<mapsto> ''garbage''] ''tasbeeh_counts''
       = (Value JNull, [''tasbeeh_counts'' \<mapsto> ''garbage''])\<close>
    using getWithExpiry_thirty_minutes
      [where store = \<open>[''tasbeeh_counts'' \<mapsto> ''garbage'']\<close> and key = \<open>''tasbeeh_counts''\<close>
         and rt = example_runtime and now = 1801000 and s = \<open>''garbage''\<close>,
         THEN conjunct2, THEN conjunct1]
    by (simp add: example_parse)
  have fresh: \<open>getWithExpiry example_runtime 1801000
         [''tasbeeh_counts'' \<mapsto> ''{"value":33,"timestamp":1000}''] ''tasbeeh_counts''
       = (Value (JNum 33), [''tasbeeh_counts'' \<mapsto> ''{"value":33,"timestamp":1000}''])\<close>
    using getWithExpiry_thirty_minutes
      [where store = \<open>[''tasbeeh_counts'' \<mapsto> ''{"value":33,"timestamp":1000}'']\<close>
         and key = \<open>''tasbeeh_counts''\<close> and rt = example_runtime and now = 1801000
         and s = \<open>''{"value":33,"timestamp":1000}''\<close>
         and kvs = \<open>[(''value'', JNum 33), (''timestamp'', JNum 1000)]\<close> and t = 1000,
         THEN conjunct2, THEN conjunct2, THEN conjunct1]
    by (simp add: example_parse)
  have expired: \<open>getWithExpiry example_runtime 1801001
         [''tasbeeh_counts'' \<mapsto> ''{"value":33,"timestamp":1000}''] ''tasbeeh_counts''
       = (Value JNull, Map.empty)\<close>
    using getWithExpiry_thirty_minutes
      [where store = \<open>[''tasbeeh_counts'' \<mapsto> ''{"value":33,"timestamp":1000}'']\<close>
         and key = \<open>''tasbeeh_counts''\<close> and rt = example_runtime and now = 1801001
         and s = \<open>''{"value":33,"timestamp":1000}''\<close>
         and kvs = \<open>[(''value'', JNum 33), (''timestamp'', JNum 1000)]\<close> and t = 1000,
         THEN conjunct2, THEN conjunct2, THEN conjunct1]
    by (simp add: example_parse)
  have saved: \<open>getWithExpiry example_runtime 1801001
         (saveWithExpiry example_runtime 1000 Map.empty TASBEEH_COUNTS_KEY (JNum 33)) TASBEEH_COUNTS_KEY
       = (Value JNull, Map.empty)\<close>
    using getWithExpiry_thirty_minutes
      [where rt = example_runtime and now = 1801001 and tsave = 1000 and v = \<open>JNum 33\<close>
         and store = Map.empty,
         THEN conjunct2, THEN conjunct2, THEN conjunct2, THEN conjunct2]
    by (simp add: example_parse)
  show ?thesis using absent garbage fresh expired saved by blast
qed


section \<open>The counters\<close>

text \<open>
  Claim C10. With an adhkar selected, \<open>handleReset\<close> sets the count stored under its
  id to 0 and leaves every other key of the counts map as it was; with none selected
  it changes nothing.
\<close>

theorem handleReset_frame:
  "(selectedAdhkar s = Some a \<longrightarrow>
      counts (handleReset s) (id a) = Some 0
      \<and> (\<forall>k. k \<noteq> id a \<longrightarrow> counts (handleReset s) k = counts s k))
   \<and> (selectedAdhkar s = None \<longrightarrow> handleReset s = s)"
  by (simp add: handleReset_def Let_def)

theorem handleReset_frame_witness:
  "counts (handleReset
      \<lparr>counts = [''a'' \<mapsto> 5, ''b'' \<mapsto> 7],
       selectedAdhkar = Some \<lparr>id = ''a'', name = ''n'', recommended = 33, category = ''c''\<rparr>,
       countViewVisible = True, count = 5, vibrations = []\<rparr>) ''a'' = Some 0
   \<and> counts (handleReset
      \<lparr>counts = [''a'' \<mapsto> 5, ''b'' \<mapsto> 7],
       selectedAdhkar = Some \<lparr>id = ''a'', name = ''n'', recommended = 33, category = ''c''\<rparr>,
       countViewVisible = True, count = 5, vibrations = []\<rparr>) ''b'' = Some 7
   \<and> counts (handleReset
      \<lparr>counts = [''a'' \<mapsto> 5, ''b'' \<mapsto> 7], selectedAdhkar = None,
       countViewVisible = False, count = 5, vibrations = []\<rparr>) ''a'' = Some 5"
  using handleReset_frame
     [of "\<lparr>counts = [''a'' \<mapsto> 5, ''b'' \<mapsto> 7],
       selectedAdhkar = Some \<lparr>id = ''a'', name = ''n'', recommended = 33, category = ''c''\<rparr>,
       countViewVisible = True, count = 5, vibrations = []\<rparr>"
      "\<lparr>id = ''a'', name = ''n'', recommended = 33, category = ''c''\<rparr>"]
    handleReset_frame
     [of "\<lparr>counts = [''a'' \<mapsto> 5, ''b'' \<mapsto> 7], selectedAdhkar = None,
       countViewVisible = False, count = 5, vibrations = []\<rparr>"]
  by simp

end
